theory Spec2Isabelle
  imports Main "HOL-Library.Multiset" "HOL-Library.AList" "HOL-Library.Option_ord"
begin

section \<open>Strings, numbers and dates of the runtime\<close>

text \<open>
  The routes convert between query strings, numbers and dates with functions of the
  JavaScript runtime and of the date library. A number of the runtime is here an integer
  of magnitude at most \<open>2 ^ 53\<close> (on these the runtime's double arithmetic is exact), or
  \<open>NaN\<close>, or \<open>Other_number\<close>: a value this development does not determine (a fraction, a
  number beyond that range, an infinity, or the result of a conversion that is not decided
  here; it may also be \<open>NaN\<close>). A date of the date library is an instant in milliseconds
  since 1970-01-01T00:00 UTC, or the invalid date, or \<open>Other_date\<close>: a date this
  development does not determine. Nothing is stated about the undetermined values.
\<close>

datatype number = Num int | NaN | Other_number

datatype date = Date int | Invalid_Date | Other_date

definition is_digit :: "char \<Rightarrow> bool" where
  "is_digit c = (48 \<le> (of_char c :: nat) \<and> (of_char c :: nat) \<le> 57)"

definition digit_value :: "char \<Rightarrow> nat" where
  "digit_value c = of_char c - 48"

fun digits_value :: "nat \<Rightarrow> string \<Rightarrow> nat" where
  "digits_value acc [] = acc"
| "digits_value acc (c # cs) = digits_value (10 * acc + digit_value c) cs"

definition decimal :: "string \<Rightarrow> nat option" where
  "decimal s = (if s \<noteq> [] \<and> list_all is_digit s then Some (digits_value 0 s) else None)"

definition safe_integer :: "int \<Rightarrow> number" where
  "safe_integer i = (if - (2 ^ 53) \<le> i \<and> i \<le> 2 ^ 53 then Num i else Other_number)"

text \<open>
  \<open>Number(s)\<close>. White space around the text is dropped. The empty text is 0; decimal
  digits with an optional sign are the integer they denote. A text with a character that
  no numeric text of the runtime contains is \<open>NaN\<close>. Every other text (a fraction, an
  exponent, a hexadecimal text, letters that occur in such texts) is not decided here.
\<close>

definition is_space :: "char \<Rightarrow> bool" where
  "is_space c = ((9 \<le> (of_char c :: nat) \<and> (of_char c :: nat) \<le> 13) \<or> (of_char c :: nat) = 32)"

definition trim :: "string \<Rightarrow> string" where
  "trim s = rev (dropWhile is_space (rev (dropWhile is_space s)))"

definition numeric_char :: "char \<Rightarrow> bool" where
  "numeric_char c =
     (is_space c \<or> is_digit c \<or> c \<in> set ''+-.abcdefABCDEFxXoOInity'' \<or>
      128 \<le> (of_char c :: nat))"

definition Number :: "string \<Rightarrow> number" where
  "Number s =
     (case trim s of
        [] \<Rightarrow> Num 0
      | c # cs \<Rightarrow>
          (case (if c = CHR ''-'' then map_option (\<lambda>n. - int n) (decimal cs)
                 else if c = CHR ''+'' then map_option int (decimal cs)
                 else map_option int (decimal (c # cs))) of
             Some i \<Rightarrow> safe_integer i
           | None \<Rightarrow> if list_all numeric_char (c # cs) then Other_number else NaN))"

definition js_plus :: "number \<Rightarrow> number \<Rightarrow> number" where
  "js_plus a b =
     (case (a, b) of
        (Num x, Num y) \<Rightarrow> safe_integer (x + y)
      | (NaN, y) \<Rightarrow> NaN
      | (x, NaN) \<Rightarrow> NaN
      | (x, y) \<Rightarrow> Other_number)"

definition js_minus :: "number \<Rightarrow> number \<Rightarrow> number" where
  "js_minus a b =
     (case (a, b) of
        (Num x, Num y) \<Rightarrow> safe_integer (x - y)
      | (NaN, y) \<Rightarrow> NaN
      | (x, NaN) \<Rightarrow> NaN
      | (x, y) \<Rightarrow> Other_number)"

text \<open>\<open>Math.floor(x / 60)\<close> and \<open>x % 60\<close>; the remainder has the sign of \<open>x\<close>.\<close>

definition js_floor_div_60 :: "number \<Rightarrow> number" where
  "js_floor_div_60 x =
     (case x of Num i \<Rightarrow> Num (i div 60) | NaN \<Rightarrow> NaN | Other_number \<Rightarrow> Other_number)"

definition js_rem_60 :: "number \<Rightarrow> number" where
  "js_rem_60 x =
     (case x of
        Num i \<Rightarrow> Num (if 0 \<le> i then i mod 60 else - ((- i) mod 60))
      | NaN \<Rightarrow> NaN
      | Other_number \<Rightarrow> Other_number)"

fun string_of_nat :: "nat \<Rightarrow> string" where
  "string_of_nat n =
     (if n < 10 then [''0123456789'' ! n]
      else string_of_nat (n div 10) @ [''0123456789'' ! (n mod 10)])"

declare string_of_nat.simps [simp del]

text \<open>\<open>n.toString()\<close> of an integer in the range above: its decimal notation.\<close>

definition toString :: "int \<Rightarrow> string" where
  "toString i = (if i < 0 then CHR ''-'' # string_of_nat (nat (- i)) else string_of_nat (nat i))"

text \<open>\<open>s.padStart(n, c)\<close> for a one-character filler.\<close>

definition padStart :: "nat \<Rightarrow> char \<Rightarrow> string \<Rightarrow> string" where
  "padStart n c s = replicate (n - length s) c @ s"

subsection \<open>Timestamps\<close>

text \<open>
  A timestamp text is read as an instant, in milliseconds since 1970-01-01T00:00 UTC.
  Covered are \<open>YYYY-MM-DD\<close> (midnight) and \<open>YYYY-MM-DDTHH:MM\<close> or
  \<open>YYYY-MM-DDTHH:MM:SS\<close>, the latter two also with the suffix \<open>Z\<close> or \<open>+00:00\<close>, for
  years from 1 and valid calendar dates; the process and the store run in UTC. The same
  reading serves for the date library's \<open>parseISO\<close> and for the store's comparison of a
  timestamp column with a date literal; \<open>None\<close> is a text that is not read this way.
\<close>

definition leap_year :: "nat \<Rightarrow> bool" where
  "leap_year y = (if y mod 400 = 0 then True else if y mod 100 = 0 then False else y mod 4 = 0)"

definition days_in_month :: "nat \<Rightarrow> nat \<Rightarrow> nat" where
  "days_in_month y m =
     (if m = 2 then (if leap_year y then 29 else 28)
      else if m = 4 \<or> m = 6 \<or> m = 9 \<or> m = 11 then 30 else 31)"

definition days_from_civil :: "int \<Rightarrow> int \<Rightarrow> int \<Rightarrow> int" where
  "days_from_civil y m d =
     (let y' = (if m \<le> 2 then y - 1 else y);
          era = y' div 400;
          yoe = y' - era * 400;
          doy = (153 * (if 2 < m then m - 3 else m + 9) + 2) div 5 + d - 1;
          doe = yoe * 365 + yoe div 4 - yoe div 100 + doy
      in era * 146097 + doe - 719468)"

definition field :: "nat \<Rightarrow> nat \<Rightarrow> string \<Rightarrow> nat option" where
  "field i n s = decimal (take n (drop i s))"

definition civil_days :: "string \<Rightarrow> int option" where
  "civil_days s =
     (if length s = 10 \<and> s ! 4 = CHR ''-'' \<and> s ! 7 = CHR ''-'' then
        (case (field 0 4 s, field 5 2 s, field 8 2 s) of
           (Some y, Some m, Some d) \<Rightarrow>
             if 1 \<le> y \<and> 1 \<le> m \<and> m \<le> 12 \<and> 1 \<le> d \<and> d \<le> days_in_month y m
             then Some (days_from_civil (int y) (int m) (int d)) else None
         | _ \<Rightarrow> None)
      else None)"

definition strip_utc :: "string \<Rightarrow> string" where
  "strip_utc s =
     (if s \<noteq> [] \<and> last s = CHR ''Z'' then butlast s
      else if 6 \<le> length s \<and> drop (length s - 6) s = ''+00:00'' then take (length s - 6) s
      else s)"

definition clock_seconds :: "string \<Rightarrow> int option" where
  "clock_seconds s =
     (if length s = 5 \<and> s ! 2 = CHR '':'' then
        (case (field 0 2 s, field 3 2 s) of
           (Some h, Some mi) \<Rightarrow>
             if h < 24 \<and> mi < 60 then Some (int h * 3600 + int mi * 60) else None
         | _ \<Rightarrow> None)
      else if length s = 8 \<and> s ! 2 = CHR '':'' \<and> s ! 5 = CHR '':'' then
        (case (field 0 2 s, field 3 2 s, field 6 2 s) of
           (Some h, Some mi, Some sec) \<Rightarrow>
             if h < 24 \<and> mi < 60 \<and> sec < 60
             then Some (int h * 3600 + int mi * 60 + int sec) else None
         | _ \<Rightarrow> None)
      else None)"

definition timestamp_ms :: "string \<Rightarrow> int option" where
  "timestamp_ms s =
     (if length s = 10 then map_option (\<lambda>d. d * 86400000) (civil_days s)
      else if 10 < length s \<and> s ! 10 = CHR ''T'' then
        (case (civil_days (take 10 s), clock_seconds (strip_utc (drop 11 s))) of
           (Some d, Some c) \<Rightarrow> Some (d * 86400000 + c * 1000)
         | _ \<Rightarrow> None)
      else None)"

text \<open>
  \<open>parseISO(s)\<close> of the date library: the instant of a timestamp text as above. A text
  whose part before the first \<open>T\<close> or blank contains a colon has no date part and is the
  invalid date. Every other text is not decided here.
\<close>

definition parseISO :: "string \<Rightarrow> date" where
  "parseISO s =
     (case timestamp_ms s of
        Some t \<Rightarrow> Date t
      | None \<Rightarrow>
          if CHR '':'' \<in> set (takeWhile (\<lambda>c. c \<noteq> CHR ''T'' \<and> c \<noteq> CHR '' '') s)
          then Invalid_Date else Other_date)"

text \<open>
  \<open>differenceInMinutes(dateLeft, dateRight)\<close> of the date library: the difference of the
  two instants in minutes, rounded toward zero; \<open>NaN\<close> when a date is invalid.
\<close>

definition differenceInMinutes :: "date \<Rightarrow> date \<Rightarrow> number" where
  "differenceInMinutes dateLeft dateRight =
     (case (dateLeft, dateRight) of
        (Date l, Date r) \<Rightarrow>
          if - (2 ^ 53) \<le> l - r \<and> l - r \<le> 2 ^ 53
          then Num (if 0 \<le> l - r then (l - r) div 60000 else - ((r - l) div 60000))
          else Other_number
      | (Invalid_Date, r) \<Rightarrow> NaN
      | (l, Invalid_Date) \<Rightarrow> NaN
      | (l, r) \<Rightarrow> Other_number)"

section \<open>Records of the store\<close>

text \<open>
  The store holds three collections. A row of schedules or reports is the object the
  route inserted, paired with the identifier the store gave it. The store is taken
  without constraints, triggers or cascades of its own: the source declares none.
\<close>

text \<open>
  A field of a submitted form is a text or a file; \<open>formData.get\<close> answers \<open>None\<close> (null)
  for a field that is missing. The creation time of a profile is an instant the store
  sets.
\<close>

datatype entry = Text string | File

type_synonym form_data = "string \<Rightarrow> entry option"

record profiles_embed =
  full_name :: string

record profile = profiles_embed +
  profile_id :: string
  email :: string
  is_admin :: bool
  created_at :: int

record schedule_input =
  start_time :: string
  end_time :: string
  location :: string
  description :: string

record schedule = schedule_input +
  user_id :: "string option"

record report_input =
  actual_start_time :: string
  actual_end_time :: string
  break_time :: string
  actual_description :: string
  reflection :: string

record report = report_input +
  schedule_id :: "entry option"

record db =
  db_profiles :: "profile list"
  db_schedules :: "(string \<times> schedule) list"
  db_reports :: "(string \<times> report) list"

text \<open>
  What a request finds around it: the identity provider's answers to \<open>getUser\<close> and
  \<open>getSession\<close> (the user's id), whether the write call of this request is answered with
  an error, the identifier the store gives an inserted row, and the clock
  (\<open>getFullYear()\<close>, \<open>getMonth()\<close>).
\<close>

record env =
  auth_user :: "string option"
  auth_session :: "string option"
  write_error :: bool
  new_id :: string
  clock_year :: nat
  clock_month :: nat

text \<open>The calls a handler makes to the identity provider and the store, in order.\<close>

datatype call =
    GetUser
  | GetSession
  | SelectIsAdmin "string option"
  | SelectReports string string
  | SelectProfiles
  | SelectSchedules "string option"
  | InsertSchedule schedule
  | InsertReport report
  | SignInWithOtp string string
  | DeleteProfile "entry option"

section \<open>Validation\<close>

text \<open>
  A schema answers with the parsed object or with the messages of the failing fields.
  \<open>Schema_message\<close> is the message the schema itself attaches to the field's check.
\<close>

datatype message =
    Expected_string_received_null
  | Expected_string_received_object
  | Schema_message

type_synonym field_errors = "(string \<times> message list) list"

definition z_string :: "entry option \<Rightarrow> message + string" where
  "z_string v =
     (case v of
        None \<Rightarrow> Inl Expected_string_received_null
      | Some File \<Rightarrow> Inl Expected_string_received_object
      | Some (Text s) \<Rightarrow> Inr s)"

definition z_string_min1 :: "entry option \<Rightarrow> message + string" where
  "z_string_min1 v =
     (case v of
        None \<Rightarrow> Inl Expected_string_received_null
      | Some File \<Rightarrow> Inl Expected_string_received_object
      | Some (Text s) \<Rightarrow> if length s < 1 then Inl Schema_message else Inr s)"

definition z_string_email :: "(string \<Rightarrow> bool) \<Rightarrow> entry option \<Rightarrow> message + string" where
  "z_string_email email_shape v =
     (case v of
        None \<Rightarrow> Inl Expected_string_received_null
      | Some File \<Rightarrow> Inl Expected_string_received_object
      | Some (Text s) \<Rightarrow> if email_shape s then Inr s else Inl Schema_message)"

definition field_error :: "string \<Rightarrow> message + string \<Rightarrow> field_errors" where
  "field_error name r = (case r of Inl m \<Rightarrow> [(name, [m])] | Inr s \<Rightarrow> [])"

definition scheduleSchema :: "form_data \<Rightarrow> field_errors + schedule_input" where
  "scheduleSchema form =
     (case (z_string (form ''start_time''), z_string (form ''end_time''),
            z_string_min1 (form ''location''), z_string_min1 (form ''description'')) of
        (Inr a, Inr b, Inr c, Inr e) \<Rightarrow>
          Inr \<lparr>start_time = a, end_time = b, location = c, description = e\<rparr>
      | (ra, rb, rc, re) \<Rightarrow>
          Inl (field_error ''start_time'' ra @ field_error ''end_time'' rb @
               field_error ''location'' rc @ field_error ''description'' re))"

definition reportSchema :: "form_data \<Rightarrow> field_errors + report_input" where
  "reportSchema form =
     (case (z_string (form ''actual_start_time''), z_string (form ''actual_end_time''),
            z_string (form ''break_time''), z_string_min1 (form ''actual_description''),
            z_string_min1 (form ''reflection'')) of
        (Inr a, Inr b, Inr c, Inr e, Inr f) \<Rightarrow>
          Inr \<lparr>actual_start_time = a, actual_end_time = b, break_time = c,
               actual_description = e, reflection = f\<rparr>
      | (ra, rb, rc, re, rf) \<Rightarrow>
          Inl (field_error ''actual_start_time'' ra @ field_error ''actual_end_time'' rb @
               field_error ''break_time'' rc @ field_error ''actual_description'' re @
               field_error ''reflection'' rf))"

record invite_input =
  invite_email :: string
  invite_full_name :: string

text \<open>The shape test of the schema's email check is a parameter.\<close>

definition inviteSchema :: "(string \<Rightarrow> bool) \<Rightarrow> form_data \<Rightarrow> field_errors + invite_input" where
  "inviteSchema email_shape form =
     (case (z_string_email email_shape (form ''email''), z_string_min1 (form ''full_name'')) of
        (Inr a, Inr b) \<Rightarrow> Inr \<lparr>invite_email = a, invite_full_name = b\<rparr>
      | (ra, rb) \<Rightarrow> Inl (field_error ''email'' ra @ field_error ''full_name'' rb))"

text \<open>The decimal notation of a non-negative integer.\<close>

definition non_negative_integer :: "string \<Rightarrow> bool" where
  "non_negative_integer s = (s \<noteq> [] \<and> list_all is_digit s)"

section \<open>The Schedule route: action\<close>

datatype failure =
    Schedule_insert_failed
  | Report_insert_failed
  | Not_admin
  | Invite_failed
  | Delete_failed

datatype action_response = Errors field_errors | Error_message failure | Success

text \<open>
  The two tests of \<open>intent\<close> follow each other in the source; the first block either
  returns or falls through to the second test, which then fails, and to the final
  success.
\<close>

definition schedule_action :: "env \<Rightarrow> form_data \<Rightarrow> db \<Rightarrow> action_response \<times> db \<times> call list" where
  "schedule_action e form d =
     (if form ''intent'' = Some (Text ''create'') then
        (case scheduleSchema form of
           Inl errs \<Rightarrow> (Errors errs, d, [])
         | Inr data \<Rightarrow>
             (let row = \<lparr>start_time = start_time data, end_time = end_time data,
                         location = location data, description = description data,
                         user_id = auth_user e\<rparr>
              in if write_error e
                 then (Error_message Schedule_insert_failed, d, [GetUser, InsertSchedule row])
                 else (Success, d\<lparr>db_schedules := db_schedules d @ [(new_id e, row)]\<rparr>,
                       [GetUser, InsertSchedule row])))
      else if form ''intent'' = Some (Text ''report'') then
        (case reportSchema form of
           Inl errs \<Rightarrow> (Errors errs, d, [])
         | Inr data \<Rightarrow>
             (let row = \<lparr>actual_start_time = actual_start_time data,
                         actual_end_time = actual_end_time data,
                         break_time = break_time data,
                         actual_description = actual_description data,
                         reflection = reflection data,
                         schedule_id = form ''schedule_id''\<rparr>
              in if write_error e
                 then (Error_message Report_insert_failed, d, [InsertReport row])
                 else (Success, d\<lparr>db_reports := db_reports d @ [(new_id e, row)]\<rparr>,
                       [InsertReport row])))
      else (Success, d, []))"

section \<open>The admin gate\<close>

text \<open>
  \<open>.from("profiles").select("is_admin").eq("id", id).single()\<close>: the flag of the one
  profile with that id; no data when the id is missing or the rows are not exactly one.
\<close>

definition select_is_admin :: "db \<Rightarrow> string option \<Rightarrow> bool option" where
  "select_is_admin d uid =
     (case uid of
        None \<Rightarrow> None
      | Some u \<Rightarrow>
          (case filter (\<lambda>p. profile_id p = u) (db_profiles d) of
             [p] \<Rightarrow> Some (is_admin p)
           | _ \<Rightarrow> None))"

definition admin_caller :: "env \<Rightarrow> db \<Rightarrow> bool" where
  "admin_caller e d = (select_is_admin d (auth_user e) = Some True)"

section \<open>The Members route\<close>

definition delete_profile :: "entry option \<Rightarrow> profile list \<Rightarrow> profile list" where
  "delete_profile v ps = filter (\<lambda>p. v \<noteq> Some (Text (profile_id p))) ps"

definition members_action ::
  "(string \<Rightarrow> bool) \<Rightarrow> env \<Rightarrow> form_data \<Rightarrow> db \<Rightarrow> action_response \<times> db \<times> call list" where
  "members_action email_shape e form d =
     (let gate = [GetUser, SelectIsAdmin (auth_user e)] in
      if \<not> admin_caller e d then (Error_message Not_admin, d, gate)
      else if form ''intent'' = Some (Text ''invite'') then
        (case inviteSchema email_shape form of
           Inl errs \<Rightarrow> (Errors errs, d, gate)
         | Inr data \<Rightarrow>
             (let calls = gate @ [SignInWithOtp (invite_email data) (invite_full_name data)]
              in if write_error e then (Error_message Invite_failed, d, calls)
                 else (Success, d, calls)))
      else if form ''intent'' = Some (Text ''delete'') then
        (let calls = gate @ [DeleteProfile (form ''user_id'')]
         in if write_error e then (Error_message Delete_failed, d, calls)
            else (Success, d\<lparr>db_profiles := delete_profile (form ''user_id'') (db_profiles d)\<rparr>,
                  calls))
      else (Success, d, gate))"

datatype error = Access_denied

definition members_loader :: "env \<Rightarrow> db \<Rightarrow> (error + profile list) \<times> call list" where
  "members_loader e d =
     (if \<not> admin_caller e d then (Inl Access_denied, [GetUser, SelectIsAdmin (auth_user e)])
      else (Inr (sort_key created_at (db_profiles d)),
            [GetUser, SelectIsAdmin (auth_user e), SelectProfiles]))"

section \<open>The layout of the app shell\<close>

datatype layout_response = Redirect string | Layout_data string "bool option"

definition layout_loader :: "env \<Rightarrow> db \<Rightarrow> layout_response \<times> call list" where
  "layout_loader e d =
     (case auth_session e of
        None \<Rightarrow> (Redirect ''/login'', [GetSession])
      | Some u \<Rightarrow>
          (Layout_data u (select_is_admin d (Some u)), [GetSession, SelectIsAdmin (Some u)]))"

section \<open>The Reports route: loader\<close>

text \<open>\<open>a || b\<close> on a query parameter: the default when it is absent or empty.\<close>

definition or_default :: "string option \<Rightarrow> string \<Rightarrow> string" where
  "or_default p dflt = (case p of None \<Rightarrow> dflt | Some s \<Rightarrow> if s = [] then dflt else s)"

text \<open>The literal handed to \<open>gte\<close> and the literal handed to \<open>lt\<close>.\<close>

definition lower_bound :: "string \<Rightarrow> string \<Rightarrow> string" where
  "lower_bound year month = year @ ''-'' @ padStart 2 (CHR ''0'') month @ ''-01''"

definition upper_bound :: "string \<Rightarrow> string \<Rightarrow> string option" where
  "upper_bound year month =
     (case js_plus (Number month) (Num 1) of
        Num n \<Rightarrow>
          Some (year @ ''-'' @
                (if n = 13 then ''01'' else padStart 2 (CHR ''0'') (toString n)) @ ''-01'')
      | NaN \<Rightarrow> Some (year @ ''-'' @ padStart 2 (CHR ''0'') ''NaN'' @ ''-01'')
      | Other_number \<Rightarrow> None)"

record reports_row =
  row_report :: "string \<times> report"
  row_schedules :: "((string \<times> schedule) \<times> string option) option"

text \<open>
  The join \<open>schedules(*, profiles(full_name))\<close>: the schedule the report refers to, with
  the name of its owner's profile, where they exist.
\<close>

definition embed :: "db \<Rightarrow> string \<times> report \<Rightarrow> reports_row" where
  "embed d r =
     \<lparr>row_report = r,
      row_schedules =
        (case schedule_id (snd r) of
           Some (Text sid) \<Rightarrow>
             (case find (\<lambda>s. fst s = sid) (db_schedules d) of
                None \<Rightarrow> None
              | Some s \<Rightarrow>
                  Some (s, (case user_id (snd s) of
                              None \<Rightarrow> None
                            | Some u \<Rightarrow>
                                map_option full_name
                                  (find (\<lambda>p. profile_id p = u) (db_profiles d)))))
         | _ \<Rightarrow> None)\<rparr>"

definition dated_reports :: "db \<Rightarrow> (int \<times> (string \<times> report)) list" where
  "dated_reports d =
     List.map_filter
       (\<lambda>r. map_option (\<lambda>t. (t, r)) (timestamp_ms (actual_start_time (snd r))))
       (db_reports d)"

text \<open>
  \<open>.gte(column, lower).lt(column, upper).order(column)\<close> on the reports, the column
  being a timestamp: the rows whose start lies in the range, ordered by it, each with its
  join; rows with equal timestamps keep their stored order. There is no data (\<open>None\<close>)
  where a literal is not read as a timestamp.
\<close>

definition select_reports :: "db \<Rightarrow> string \<Rightarrow> string \<Rightarrow> reports_row list option" where
  "select_reports d lower upper =
     (case (timestamp_ms lower, timestamp_ms upper) of
        (Some lo, Some hi) \<Rightarrow>
          Some (map (\<lambda>x. embed d (snd x))
                 (sort_key fst (filter (\<lambda>x. lo \<le> fst x \<and> fst x < hi) (dated_reports d))))
      | _ \<Rightarrow> None)"

record reports_data =
  data_reports :: "reports_row list option"
  data_year :: string
  data_month :: string

text \<open>
  The loader of the Reports route, for the query parameters \<open>year\<close> and \<open>month\<close>. For
  an admin the result is \<open>None\<close> where \<open>Number\<close> above does not decide the month.
\<close>

definition reports_loader ::
  "env \<Rightarrow> string option \<Rightarrow> string option \<Rightarrow> db \<Rightarrow> ((error + reports_data) \<times> call list) option" where
  "reports_loader e year_param month_param d =
     (if \<not> admin_caller e d
      then Some (Inl Access_denied, [GetUser, SelectIsAdmin (auth_user e)])
      else
        (let year = or_default year_param (toString (int (clock_year e)));
             month = or_default month_param (toString (int (clock_month e) + 1))
         in case upper_bound year month of
              None \<Rightarrow> None
            | Some upper \<Rightarrow>
                Some (Inr \<lparr>data_reports = select_reports d (lower_bound year month) upper,
                           data_year = year, data_month = month\<rparr>,
                      [GetUser, SelectIsAdmin (auth_user e),
                       SelectReports (lower_bound year month) upper])))"

section \<open>The Schedule route: loader\<close>

text \<open>
  \<open>.from("schedules").select("*, reports(*)").eq("user_id", id).order("start_time")\<close>: the
  schedules of the user, each with the reports that refer to it, ordered by their start as
  the store reads it (a start it does not read comes first). For a caller who is not
  signed in the source compares \<open>user_id\<close> with an undefined value; what the store
  answers then is not determined here (\<open>None\<close>).
\<close>

definition schedules_of :: "db \<Rightarrow> string \<Rightarrow> ((string \<times> schedule) \<times> (string \<times> report) list) list" where
  "schedules_of d u =
     map (\<lambda>s. (s, filter (\<lambda>r. schedule_id (snd r) = Some (Text (fst s))) (db_reports d)))
       (sort_key (\<lambda>s. timestamp_ms (start_time (snd s)))
          (filter (\<lambda>s. user_id (snd s) = Some u) (db_schedules d)))"

definition schedule_loader ::
  "env \<Rightarrow> db \<Rightarrow> ((string \<times> schedule) \<times> (string \<times> report) list) list option \<times> call list" where
  "schedule_loader e d =
     (case auth_user e of
        None \<Rightarrow> (None, [GetUser, SelectSchedules None])
      | Some u \<Rightarrow> (Some (schedules_of d u), [GetUser, SelectSchedules (Some u)]))"

section \<open>The Reports route: page\<close>

text \<open>
  The page receives the rows of the loader. A row whose report refers to no stored
  schedule has no joined schedule, and a joined schedule whose owner has no profile has
  no joined profile; the page reads through both, and reading a property of \<open>null\<close>
  throws. The accumulator of the reducer is an object: it is kept as the list of its own
  properties in the order in which they were added. Looking up a name that the object
  does not own finds what every object inherits under the names of \<open>inherited_keys\<close>: a
  function or an object, which counts as true and has no property \<open>reports\<close>. A user id
  that is \<open>null\<close> is the property name \<open>null\<close>.
\<close>

datatype js_error = TypeError | RangeError

definition inherited_keys :: "string list" where
  "inherited_keys =
     [''constructor'', ''__defineGetter__'', ''__defineSetter__'', ''hasOwnProperty'',
      ''__lookupGetter__'', ''__lookupSetter__'', ''isPrototypeOf'', ''propertyIsEnumerable'',
      ''toString'', ''valueOf'', ''__proto__'', ''toLocaleString'']"

definition property_key :: "string option \<Rightarrow> string" where
  "property_key v = (case v of None \<Rightarrow> ''null'' | Some u \<Rightarrow> u)"

record user_group =
  userName :: string
  reports :: "reports_row list"
  totalWorkMinutes :: number

definition workMinutes :: "reports_row \<Rightarrow> number" where
  "workMinutes report =
     js_minus
       (differenceInMinutes (parseISO (actual_end_time (snd (row_report report))))
          (parseISO (actual_start_time (snd (row_report report)))))
       (Number (break_time (snd (row_report report))))"

text \<open>\<open>acc[userId].reports.push(report); acc[userId].totalWorkMinutes += workMinutes\<close>\<close>

definition push_report :: "user_group \<Rightarrow> reports_row \<Rightarrow> user_group" where
  "push_report g report =
     g\<lparr>reports := reports g @ [report],
       totalWorkMinutes := js_plus (totalWorkMinutes g) (workMinutes report)\<rparr>"

definition reduce_step ::
  "(string \<times> user_group) list \<Rightarrow> reports_row \<Rightarrow> js_error + (string \<times> user_group) list" where
  "reduce_step acc report =
     (case row_schedules report of
        None \<Rightarrow> Inl TypeError
      | Some joined \<Rightarrow>
          (let userId = property_key (user_id (snd (fst joined))) in
           case map_of acc userId of
             Some g \<Rightarrow> Inr (AList.update userId (push_report g report) acc)
           | None \<Rightarrow>
               if userId \<in> set inherited_keys then Inl TypeError
               else
                 (case snd joined of
                    None \<Rightarrow> Inl TypeError
                  | Some name \<Rightarrow>
                      Inr (AList.update userId
                             (push_report
                                \<lparr>userName = name, reports = [], totalWorkMinutes = Num 0\<rparr>
                                report)
                             acc))))"

fun reduce_rows ::
  "(string \<times> user_group) list \<Rightarrow> reports_row list \<Rightarrow> js_error + (string \<times> user_group) list" where
  "reduce_rows acc [] = Inr acc"
| "reduce_rows acc (report # rest) =
     (case reduce_step acc report of
        Inl e \<Rightarrow> Inl e
      | Inr acc' \<Rightarrow> reduce_rows acc' rest)"

text \<open>\<open>reports?.reduce(..., {})\<close>; without rows the page goes on with the empty object.\<close>

definition reportsByUser :: "reports_row list option \<Rightarrow> js_error + (string \<times> user_group) list" where
  "reportsByUser rs = (case rs of None \<Rightarrow> Inr [] | Some xs \<Rightarrow> reduce_rows [] xs)"

text \<open>The minutes computed again for each row of a user's table.\<close>

definition row_workMinutes :: "reports_row \<Rightarrow> number" where
  "row_workMinutes report =
     js_minus
       (differenceInMinutes (parseISO (actual_end_time (snd (row_report report))))
          (parseISO (actual_start_time (snd (row_report report)))))
       (Number (break_time (snd (row_report report))))"

text \<open>
  What the page shows for a number of minutes: \<open>Math.floor(x / 60)\<close> as hours and
  \<open>x % 60\<close> as minutes (both exact on the integers of the range above).
\<close>

definition hours_minutes :: "number \<Rightarrow> number \<times> number" where
  "hours_minutes x = (js_floor_div_60 x, js_rem_60 x)"

text \<open>
  An outcome of rendering: a value, a thrown error, or not determined here. A row formats
  its start and its end with \<open>format\<close> of the date library, which throws on the invalid
  date.
\<close>

datatype 'a outcome = Returned 'a | Thrown js_error | Not_determined

definition render_row :: "reports_row \<Rightarrow> (number \<times> number) outcome" where
  "render_row report =
     (let start = parseISO (actual_start_time (snd (row_report report)));
          finish = parseISO (actual_end_time (snd (row_report report)))
      in if start = Invalid_Date \<or> finish = Invalid_Date then Thrown RangeError
         else if start = Other_date \<or> finish = Other_date then Not_determined
         else Returned (hours_minutes (row_workMinutes report)))"

fun in_order :: "'a outcome list \<Rightarrow> 'a list outcome" where
  "in_order [] = Returned []"
| "in_order (x # xs) =
     (case x of
        Returned a \<Rightarrow>
          (case in_order xs of
             Returned as \<Rightarrow> Returned (a # as)
           | Thrown e \<Rightarrow> Thrown e
           | Not_determined \<Rightarrow> Not_determined)
      | Thrown e \<Rightarrow> Thrown e
      | Not_determined \<Rightarrow> Not_determined)"

record shown_group =
  shown_userName :: string
  shown_total :: "number \<times> number"
  shown_rows :: "(number \<times> number) list"

definition render_group :: "string \<times> user_group \<Rightarrow> (string \<times> shown_group) outcome" where
  "render_group entry =
     (case in_order (map render_row (reports (snd entry))) of
        Returned rows \<Rightarrow>
          Returned (fst entry,
                    \<lparr>shown_userName = userName (snd entry),
                     shown_total = hours_minutes (totalWorkMinutes (snd entry)),
                     shown_rows = rows\<rparr>)
      | Thrown e \<Rightarrow> Thrown e
      | Not_determined \<Rightarrow> Not_determined)"

text \<open>
  \<open>Object.entries\<close>: the properties whose names are array indices come first, in
  ascending order of the index, then the others in the order in which they were added.
\<close>

definition array_index :: "string \<Rightarrow> nat option" where
  "array_index k =
     (case decimal k of
        None \<Rightarrow> None
      | Some n \<Rightarrow> if string_of_nat n = k \<and> n < 4294967295 then Some n else None)"

definition entries :: "(string \<times> 'a) list \<Rightarrow> (string \<times> 'a) list" where
  "entries acc =
     sort_key (\<lambda>entry. array_index (fst entry))
       (filter (\<lambda>entry. array_index (fst entry) \<noteq> None) acc) @
     filter (\<lambda>entry. array_index (fst entry) = None) acc"

text \<open>The page: one section for each property of the accumulator.\<close>

definition Reports :: "reports_row list option \<Rightarrow> (string \<times> shown_group) list outcome" where
  "Reports rs =
     (case reportsByUser rs of
        Inl e \<Rightarrow> Thrown e
      | Inr acc \<Rightarrow> in_order (map render_group (entries acc)))"

subsection \<open>Notions for the statements about the page\<close>





definition extend_group :: "user_group \<Rightarrow> reports_row list \<Rightarrow> user_group" where
  "extend_group g ys =
     g\<lparr>reports := reports g @ ys,
       totalWorkMinutes := foldl js_plus (totalWorkMinutes g) (map workMinutes ys)\<rparr>"





text \<open>The stored reports that an answer of the Reports loader carries.\<close>

definition returned_reports ::
  "((error + reports_data) \<times> call list) option \<Rightarrow> (string \<times> report) list option" where
  "returned_reports answer =
     (case answer of
        Some (Inr data, calls) \<Rightarrow> map_option (map row_report) (data_reports data)
      | _ \<Rightarrow> None)"

text \<open>The reports of a store whose start the store reads as an instant in a range.\<close>

definition in_range :: "int \<Rightarrow> int \<Rightarrow> string \<times> report \<Rightarrow> bool" where
  "in_range lo hi r =
     (case timestamp_ms (actual_start_time (snd r)) of
        None \<Rightarrow> False
      | Some t \<Rightarrow> lo \<le> t \<and> t < hi)"

section \<open>Example requests\<close>

definition admin_profile :: profile where
  "admin_profile =
     \<lparr>full_name = ''Aoi'', profile_id = ''u1'', email = ''aoi@example.org'',
      is_admin = True, created_at = 1\<rparr>"

definition member_profile :: profile where
  "member_profile =
     \<lparr>full_name = ''Ren'', profile_id = ''u2'', email = ''ren@example.org'',
      is_admin = False, created_at = 2\<rparr>"

definition november_schedule :: "string \<times> schedule" where
  "november_schedule =
     (''s1'', \<lparr>start_time = ''2024-11-05T09:00'', end_time = ''2024-11-05T17:00'',
              location = ''office'', description = ''desk work'', user_id = Some ''u2''\<rparr>)"

definition december_schedule :: "string \<times> schedule" where
  "december_schedule =
     (''s2'', \<lparr>start_time = ''2024-12-16T09:00'', end_time = ''2024-12-16T17:00'',
              location = ''office'', description = ''desk work'', user_id = Some ''u2''\<rparr>)"

definition november_report :: "string \<times> report" where
  "november_report =
     (''r1'', \<lparr>actual_start_time = ''2024-11-05T09:00'', actual_end_time = ''2024-11-05T17:00'',
              break_time = ''60'', actual_description = ''desk work'', reflection = ''fine'',
              schedule_id = Some (Text ''s1'')\<rparr>)"

definition december_report :: "string \<times> report" where
  "december_report =
     (''r2'', \<lparr>actual_start_time = ''2024-12-16T09:00'', actual_end_time = ''2024-12-16T17:00'',
              break_time = ''45'', actual_description = ''desk work'', reflection = ''fine'',
              schedule_id = Some (Text ''s2'')\<rparr>)"

definition example_db :: db where
  "example_db =
     \<lparr>db_profiles = [admin_profile, member_profile],
      db_schedules = [november_schedule, december_schedule],
      db_reports = [november_report, december_report]\<rparr>"

definition admin_env :: env where
  "admin_env =
     \<lparr>auth_user = Some ''u1'', auth_session = Some ''u1'', write_error = False,
      new_id = ''r3'', clock_year = 2024, clock_month = 11\<rparr>"

definition member_env :: env where
  "member_env =
     \<lparr>auth_user = Some ''u2'', auth_session = Some ''u2'', write_error = False,
      new_id = ''r3'', clock_year = 2024, clock_month = 11\<rparr>"

definition anonymous_env :: env where
  "anonymous_env =
     \<lparr>auth_user = None, auth_session = None, write_error = False,
      new_id = ''r3'', clock_year = 2024, clock_month = 11\<rparr>"

text \<open>
  A second report for schedule \<open>s1\<close>, which has one already, sent by a user who does not
  own the schedule; its break time is no non-negative integer.
\<close>

definition report_form :: form_data where
  "report_form =
     [''intent'' \<mapsto> Text ''report'', ''schedule_id'' \<mapsto> Text ''s1'',
      ''actual_start_time'' \<mapsto> Text ''2024-11-05T10:00'',
      ''actual_end_time'' \<mapsto> Text ''2024-11-05T12:00'',
      ''break_time'' \<mapsto> Text ''-15'',
      ''actual_description'' \<mapsto> Text ''a second report'',
      ''reflection'' \<mapsto> Text ''none'']"

definition report_form_data :: report_input where
  "report_form_data =
     \<lparr>actual_start_time = ''2024-11-05T10:00'', actual_end_time = ''2024-11-05T12:00'',
      break_time = ''-15'', actual_description = ''a second report'', reflection = ''none''\<rparr>"

definition empty_create_form :: form_data where
  "empty_create_form =
     [''intent'' \<mapsto> Text ''create'', ''start_time'' \<mapsto> Text ''2024-12-02T09:00'',
      ''end_time'' \<mapsto> Text ''2024-12-02T17:00'', ''location'' \<mapsto> Text [],
      ''description'' \<mapsto> Text ''desk work'']"

definition other_form :: form_data where
  "other_form = [''intent'' \<mapsto> Text ''update'', ''user_id'' \<mapsto> Text ''u2'']"

definition delete_form :: form_data where
  "delete_form = [''intent'' \<mapsto> Text ''delete'', ''user_id'' \<mapsto> Text ''u2'']"

text \<open>
  Rows for the page: two reports of the member \<open>u2\<close>, a report whose end lies before its
  start, and the same two reports with the clock times alone, as the report form's time
  fields submit them.
\<close>

definition page_row :: "string \<Rightarrow> string \<Rightarrow> string \<Rightarrow> string \<Rightarrow> reports_row" where
  "page_row key start finish break =
     \<lparr>row_report =
        (key, \<lparr>actual_start_time = start, actual_end_time = finish, break_time = break,
               actual_description = ''desk work'', reflection = ''fine'',
               schedule_id = Some (Text ''s2'')\<rparr>),
      row_schedules = Some (december_schedule, Some ''Ren'')\<rparr>"

definition first_report :: reports_row where
  "first_report = page_row ''r4'' ''2024-12-02T09:00'' ''2024-12-02T17:00'' ''60''"

definition second_report :: reports_row where
  "second_report = page_row ''r5'' ''2024-12-03T10:00'' ''2024-12-03T12:30'' ''0''"

definition reversed_report :: reports_row where
  "reversed_report = page_row ''r6'' ''2024-12-04T12:00'' ''2024-12-04T10:00'' ''30''"

definition first_clock_report :: reports_row where
  "first_clock_report = page_row ''r7'' ''09:00'' ''17:00'' ''60''"

definition second_clock_report :: reports_row where
  "second_clock_report = page_row ''r8'' ''10:00'' ''12:30'' ''0''"

text \<open>A report of a user whose id is the name of an inherited property.\<close>

definition constructor_report :: reports_row where
  "constructor_report =
     \<lparr>row_report = november_report,
      row_schedules =
        Some ((''s1'', \<lparr>start_time = ''2024-11-05T09:00'', end_time = ''2024-11-05T17:00'',
                        location = ''office'', description = ''desk work'',
                        user_id = Some ''constructor''\<rparr>),
              Some ''Ren'')\<rparr>"

text \<open>The November report as the loader returns it once the profile of \<open>u2\<close> is deleted.\<close>

definition orphaned_report :: reports_row where
  "orphaned_report = \<lparr>row_report = november_report, row_schedules = Some (november_schedule, None)\<rparr>"

section \<open>Facts about the examples\<close>

lemmas digit_defs = decimal_def is_digit_def digit_value_def

lemmas ts_defs = timestamp_ms_def civil_days_def clock_seconds_def strip_utc_def field_def
  digit_defs days_in_month_def leap_year_def days_from_civil_def

lemmas number_defs = Number_def trim_def is_space_def numeric_char_def js_plus_def js_minus_def
  safe_integer_def digit_defs

lemmas example_defs = example_db_def admin_profile_def member_profile_def november_schedule_def
  december_schedule_def november_report_def december_report_def admin_env_def member_env_def
  anonymous_env_def

lemma admin_env_admin: "admin_caller admin_env example_db"
  by (simp add: admin_caller_def select_is_admin_def example_defs)

lemma member_env_not_admin: "\<not> admin_caller member_env example_db"
  by (simp add: admin_caller_def select_is_admin_def example_defs)

lemma anonymous_env_not_admin: "\<not> admin_caller anonymous_env example_db"
  by (simp add: admin_caller_def select_is_admin_def example_defs)

section \<open>The Schedule action\<close>

text \<open>
  C3. A submission with intent \<open>report\<close> whose payload passes the schema makes exactly one
  call, the insert of a report that carries the submitted \<open>schedule_id\<close>: the action asks
  neither for the current user nor for the schedule or its reports, so nothing it does
  depends on who owns the schedule, on its end time or on the reports it already has.
  Unless the store answers with an error, the row is appended to the reports, and the
  schedule has one report more than before, also when it had one already.
\<close>

theorem report_insert_unchecked:
  assumes "form ''intent'' = Some (Text ''report'')" and "reportSchema form = Inr data"
  shows "schedule_action e form d =
     (let row = \<lparr>actual_start_time = actual_start_time data,
                  actual_end_time = actual_end_time data, break_time = break_time data,
                  actual_description = actual_description data, reflection = reflection data,
                  schedule_id = form ''schedule_id''\<rparr>
      in if write_error e then (Error_message Report_insert_failed, d, [InsertReport row])
         else (Success, d\<lparr>db_reports := db_reports d @ [(new_id e, row)]\<rparr>, [InsertReport row])) \<and>
     (\<not> write_error e \<longrightarrow>
        length (filter (\<lambda>r. schedule_id (snd r) = form ''schedule_id'')
                  (db_reports (fst (snd (schedule_action e form d))))) =
        Suc (length (filter (\<lambda>r. schedule_id (snd r) = form ''schedule_id'') (db_reports d))))"
  using assms by (simp add: schedule_action_def Let_def)

theorem report_insert_unchecked_witness:
  "schedule_action admin_env report_form example_db =
     (Success,
      example_db\<lparr>db_reports := [november_report, december_report,
         (''r3'', \<lparr>actual_start_time = ''2024-11-05T10:00'', actual_end_time = ''2024-11-05T12:00'',
                  break_time = ''-15'', actual_description = ''a second report'',
                  reflection = ''none'', schedule_id = Some (Text ''s1'')\<rparr>)]\<rparr>,
      [InsertReport \<lparr>actual_start_time = ''2024-11-05T10:00'', actual_end_time = ''2024-11-05T12:00'',
                  break_time = ''-15'', actual_description = ''a second report'',
                  reflection = ''none'', schedule_id = Some (Text ''s1'')\<rparr>]) \<and>
   schedule_id (snd november_report) = Some (Text ''s1'')"
proof -
  have intent: "report_form ''intent'' = Some (Text ''report'')"
    by (simp add: report_form_def)
  have parsed: "reportSchema report_form = Inr report_form_data"
    by (simp add: reportSchema_def report_form_def report_form_data_def z_string_def
          z_string_min1_def)
  show ?thesis
    using report_insert_unchecked [OF intent parsed, of admin_env example_db]
    by (simp add: report_form_def report_form_data_def admin_env_def example_db_def
          november_report_def Let_def)
qed

lemma scheduleSchema_errors: "scheduleSchema form = Inl errs \<Longrightarrow> errs \<noteq> []"
  by (auto simp: scheduleSchema_def field_error_def split: sum.splits)

lemma reportSchema_errors: "reportSchema form = Inl errs \<Longrightarrow> errs \<noteq> []"
  by (auto simp: reportSchema_def field_error_def split: sum.splits)

text \<open>
  C6. A submission with intent \<open>create\<close> or \<open>report\<close> whose payload fails its schema is
  answered with the messages of the failing fields, of which there is at least one; the
  action makes no call and the store is as before.
\<close>

theorem validation_failure_no_insert:
  assumes "(form ''intent'' = Some (Text ''create'') \<and> scheduleSchema form = Inl errs) \<or>
           (form ''intent'' = Some (Text ''report'') \<and> reportSchema form = Inl errs)"
  shows "schedule_action e form d = (Errors errs, d, []) \<and> errs \<noteq> []"
  using assms
  by (auto simp: schedule_action_def dest: scheduleSchema_errors reportSchema_errors)

theorem validation_failure_no_insert_witness:
  "schedule_action member_env empty_create_form example_db =
     (Errors [(''location'', [Schema_message])], example_db, [])"
proof -
  have "empty_create_form ''intent'' = Some (Text ''create'') \<and>
        scheduleSchema empty_create_form = Inl [(''location'', [Schema_message])]"
    by (simp add: empty_create_form_def scheduleSchema_def z_string_def z_string_min1_def
          field_error_def)
  then show ?thesis
    using validation_failure_no_insert [of empty_create_form "[(''location'', [Schema_message])]"
        member_env example_db]
    by simp
qed

section \<open>Submissions with another intent\<close>

text \<open>
  C10. A submission to the Schedule action whose intent is neither \<open>create\<close> nor \<open>report\<close>
  (or is missing) makes no call at all, and an admin's submission to the Members action
  whose intent is neither \<open>invite\<close> nor \<open>delete\<close> makes only the two reading calls of the
  admin gate: no insert, no delete and no invitation. Both are answered with success and
  leave the store unchanged.
\<close>

theorem other_intent_no_effect:
  "(form ''intent'' \<noteq> Some (Text ''create'') \<and> form ''intent'' \<noteq> Some (Text ''report'') \<longrightarrow>
      schedule_action e form d = (Success, d, [])) \<and>
   (admin_caller e d \<and> form ''intent'' \<noteq> Some (Text ''invite'') \<and>
    form ''intent'' \<noteq> Some (Text ''delete'') \<longrightarrow>
      members_action email_shape e form d = (Success, d, [GetUser, SelectIsAdmin (auth_user e)]))"
  by (simp add: schedule_action_def members_action_def)

theorem other_intent_no_effect_witness:
  "schedule_action admin_env other_form example_db = (Success, example_db, []) \<and>
   members_action (\<lambda>s. True) admin_env other_form example_db =
     (Success, example_db, [GetUser, SelectIsAdmin (Some ''u1'')])"
  using other_intent_no_effect [of other_form admin_env example_db "\<lambda>s. True"] admin_env_admin
  by (simp add: other_form_def admin_env_def)

section \<open>The layout loader\<close>

text \<open>
  C7. Without a session the layout loader answers with a redirect to \<open>/login\<close>, having
  asked for the session only; it has no failing outcome. With a session it goes on to
  read the admin flag of the session's user and returns it with the user.
\<close>

theorem layout_redirects_without_session:
  "(auth_session e = None \<longrightarrow> layout_loader e d = (Redirect ''/login'', [GetSession])) \<and>
   (\<forall>u. auth_session e = Some u \<longrightarrow>
      layout_loader e d =
        (Layout_data u (select_is_admin d (Some u)), [GetSession, SelectIsAdmin (Some u)]))"
  by (simp add: layout_loader_def)

theorem layout_redirects_without_session_witness:
  "layout_loader anonymous_env example_db = (Redirect ''/login'', [GetSession]) \<and>
   layout_loader member_env example_db =
     (Layout_data ''u2'' (Some False), [GetSession, SelectIsAdmin (Some ''u2'')])"
  using layout_redirects_without_session [of anonymous_env example_db]
    layout_redirects_without_session [of member_env example_db]
  by (simp add: anonymous_env_def member_env_def select_is_admin_def example_db_def
        admin_profile_def member_profile_def)

section \<open>Deleting a member\<close>

lemma filter_delete_profile:
  "filter (\<lambda>p. profile_id p = u) (delete_profile v ps) =
     (if v = Some (Text u) then [] else filter (\<lambda>p. profile_id p = u) ps)"
  by (induction ps) (auto simp: delete_profile_def)

lemma admin_after_delete:
  "admin_caller e (d\<lparr>db_profiles := delete_profile v (db_profiles d)\<rparr>) \<Longrightarrow> admin_caller e d"
  by (auto simp: admin_caller_def select_is_admin_def filter_delete_profile
        split: option.splits if_splits)

lemma select_reports_stored:
  "map_option (map row_report) (select_reports d lower upper) =
     (case (timestamp_ms lower, timestamp_ms upper) of
        (Some lo, Some hi) \<Rightarrow>
          Some (map snd (sort_key fst (filter (\<lambda>x. lo \<le> fst x \<and> fst x < hi) (dated_reports d))))
      | _ \<Rightarrow> None)"
  by (simp add: select_reports_def embed_def comp_def split: option.splits)

lemma returned_reports_profiles:
  assumes "admin_caller e (d\<lparr>db_profiles := ps\<rparr>)" and "admin_caller e d"
  shows "returned_reports (reports_loader e year_param month_param (d\<lparr>db_profiles := ps\<rparr>)) =
     returned_reports (reports_loader e year_param month_param d)"
proof -
  have "map_option (map row_report) (select_reports (d\<lparr>db_profiles := ps\<rparr>) lower upper) =
      map_option (map row_report) (select_reports d lower upper)" for lower upper
    by (simp add: select_reports_stored dated_reports_def split: option.splits)
  with assms show ?thesis
    by (simp add: returned_reports_def reports_loader_def Let_def split: option.splits)
qed

lemma schedule_loader_profiles:
  "schedule_loader e (d\<lparr>db_profiles := ps\<rparr>) = schedule_loader e d"
  by (simp add: schedule_loader_def schedules_of_def split: option.splits)

text \<open>
  C8 (as amended). A Members submission with intent \<open>delete\<close> by an admin makes one
  delete call on the profiles; unless the store answers with an error, exactly the
  profiles whose id is the submitted \<open>user_id\<close> are removed. The submission of a caller
  who is no admin stops at the gate and removes nothing. In every case the schedules and
  the reports are as before, and they can be queried as before: the Schedule loader
  returns to every caller what it returned before, and the Reports loader returns to
  every caller who is an admin afterwards the same stored reports as before.
\<close>

theorem delete_removes_profile_only:
  assumes "form ''intent'' = Some (Text ''delete'')"
    and "d' = fst (snd (members_action email_shape e form d))"
  shows "members_action email_shape e form d =
     (if \<not> admin_caller e d
      then (Error_message Not_admin, d, [GetUser, SelectIsAdmin (auth_user e)])
      else if write_error e
      then (Error_message Delete_failed, d,
            [GetUser, SelectIsAdmin (auth_user e), DeleteProfile (form ''user_id'')])
      else (Success,
            d\<lparr>db_profiles :=
                filter (\<lambda>p. form ''user_id'' \<noteq> Some (Text (profile_id p))) (db_profiles d)\<rparr>,
            [GetUser, SelectIsAdmin (auth_user e), DeleteProfile (form ''user_id'')])) \<and>
     db_schedules d' = db_schedules d \<and> db_reports d' = db_reports d \<and>
     (\<forall>e'. schedule_loader e' d' = schedule_loader e' d) \<and>
     (\<forall>e' year_param month_param.
        admin_caller e' d' \<longrightarrow>
          admin_caller e' d \<and>
          returned_reports (reports_loader e' year_param month_param d') =
            returned_reports (reports_loader e' year_param month_param d))"
proof -
  have action: "members_action email_shape e form d =
     (if \<not> admin_caller e d
      then (Error_message Not_admin, d, [GetUser, SelectIsAdmin (auth_user e)])
      else if write_error e
      then (Error_message Delete_failed, d,
            [GetUser, SelectIsAdmin (auth_user e), DeleteProfile (form ''user_id'')])
      else (Success,
            d\<lparr>db_profiles :=
                filter (\<lambda>p. form ''user_id'' \<noteq> Some (Text (profile_id p))) (db_profiles d)\<rparr>,
            [GetUser, SelectIsAdmin (auth_user e), DeleteProfile (form ''user_id'')]))"
    using assms(1) by (simp add: members_action_def delete_profile_def Let_def)
  then have "d' = d \<or> d' = d\<lparr>db_profiles := delete_profile (form ''user_id'') (db_profiles d)\<rparr>"
    using assms(2) by (simp add: delete_profile_def split: if_splits)
  then show ?thesis
  proof
    assume "d' = d"
    with action show ?thesis by simp
  next
    assume d': "d' = d\<lparr>db_profiles := delete_profile (form ''user_id'') (db_profiles d)\<rparr>"
    have "admin_caller e' d \<and>
        returned_reports (reports_loader e' year_param month_param d') =
          returned_reports (reports_loader e' year_param month_param d)"
      if "admin_caller e' d'" for e' year_param month_param
    proof -
      from that d' have before: "admin_caller e' d"
        using admin_after_delete by blast
      with that d' show ?thesis
        using returned_reports_profiles by blast
    qed
    with action d' show ?thesis
      by (simp add: schedule_loader_profiles)
  qed
qed

text \<open>
  After the delete of the example the Reports loader returns the November report with its
  schedule and without a profile.
\<close>

lemma reports_after_delete:
  "reports_loader admin_env (Some ''2024'') (Some ''11'') (example_db\<lparr>db_profiles := [admin_profile]\<rparr>) =
     Some (Inr \<lparr>data_reports = Some [orphaned_report], data_year = ''2024'', data_month = ''11''\<rparr>,
           [GetUser, SelectIsAdmin (Some ''u1''), SelectReports ''2024-11-01'' ''2024-12-01''])"
  by (simp add: reports_loader_def admin_caller_def select_is_admin_def example_defs
        or_default_def lower_bound_def padStart_def upper_bound_def toString_def
        string_of_nat.simps number_defs select_reports_def dated_reports_def
        List.map_filter_simps embed_def orphaned_report_def ts_defs)

theorem delete_removes_profile_only_witness:
  "members_action (\<lambda>s. True) admin_env delete_form example_db =
     (Success, example_db\<lparr>db_profiles := [admin_profile]\<rparr>,
      [GetUser, SelectIsAdmin (Some ''u1''), DeleteProfile (Some (Text ''u2''))]) \<and>
   db_schedules (example_db\<lparr>db_profiles := [admin_profile]\<rparr>) =
     [november_schedule, december_schedule] \<and>
   db_reports (example_db\<lparr>db_profiles := [admin_profile]\<rparr>) = [november_report, december_report] \<and>
   schedule_loader member_env (example_db\<lparr>db_profiles := [admin_profile]\<rparr>) =
     schedule_loader member_env example_db \<and>
   schedule_loader member_env example_db =
     (Some [(november_schedule, [november_report]), (december_schedule, [december_report])],
      [GetUser, SelectSchedules (Some ''u2'')]) \<and>
   admin_caller admin_env (example_db\<lparr>db_profiles := [admin_profile]\<rparr>) \<and>
   returned_reports
     (reports_loader admin_env (Some ''2024'') (Some ''11'')
        (example_db\<lparr>db_profiles := [admin_profile]\<rparr>)) =
     returned_reports (reports_loader admin_env (Some ''2024'') (Some ''11'') example_db) \<and>
   returned_reports (reports_loader admin_env (Some ''2024'') (Some ''11'') example_db) =
     Some [november_report]"
proof -
  let ?d' = "example_db\<lparr>db_profiles := [admin_profile]\<rparr>"
  have intent: "delete_form ''intent'' = Some (Text ''delete'')"
    by (simp add: delete_form_def)
  have action: "members_action (\<lambda>s. True) admin_env delete_form example_db =
     (Success, ?d', [GetUser, SelectIsAdmin (Some ''u1''), DeleteProfile (Some (Text ''u2''))])"
    using admin_env_admin
    by (simp add: members_action_def delete_profile_def delete_form_def admin_env_def
          example_db_def admin_profile_def member_profile_def)
  then have d': "?d' = fst (snd (members_action (\<lambda>s. True) admin_env delete_form example_db))"
    by simp
  have admin': "admin_caller admin_env ?d'"
    by (simp add: admin_caller_def select_is_admin_def example_defs)
  have before: "schedule_loader member_env example_db =
     (Some [(november_schedule, [november_report]), (december_schedule, [december_report])],
      [GetUser, SelectSchedules (Some ''u2'')])"
    by (simp add: schedule_loader_def schedules_of_def example_defs ts_defs)
  have november: "returned_reports (reports_loader admin_env (Some ''2024'') (Some ''11'') ?d') =
      Some [november_report]"
    by (simp add: returned_reports_def reports_after_delete orphaned_report_def)
  note inst = delete_removes_profile_only [OF intent d']
  from inst have "schedule_loader member_env ?d' = schedule_loader member_env example_db"
    by blast
  moreover from inst admin'
  have "returned_reports (reports_loader admin_env (Some ''2024'') (Some ''11'') ?d') =
      returned_reports (reports_loader admin_env (Some ''2024'') (Some ''11'') example_db)"
    by blast
  ultimately show ?thesis
    using action admin' before november by (simp add: example_db_def)
qed

text \<open>
  C8 as stated fails: the member \<open>u2\<close>, who is no admin, submits \<open>delete\<close> for the profile
  \<open>u2\<close>; the action answers that the caller is no admin and the profile stays.
\<close>

theorem delete_counterexample:
  "members_action (\<lambda>s. True) member_env delete_form example_db =
     (Error_message Not_admin, example_db, [GetUser, SelectIsAdmin (Some ''u2'')]) \<and>
   delete_form ''user_id'' = Some (Text (profile_id member_profile)) \<and>
   db_profiles example_db = [admin_profile, member_profile]"
  using member_env_not_admin
  by (simp add: members_action_def delete_form_def member_env_def member_profile_def example_db_def)

section \<open>Validation of a report\<close>

text \<open>
  C4 (as amended). The report schema accepts a payload exactly when its five fields are
  texts and the description and the reflection are not empty; the break time is passed
  on as submitted, whatever text it is.
\<close>

theorem reportSchema_accepts:
  "reportSchema form = Inr data \<longleftrightarrow>
     form ''actual_start_time'' = Some (Text (actual_start_time data)) \<and>
     form ''actual_end_time'' = Some (Text (actual_end_time data)) \<and>
     form ''break_time'' = Some (Text (break_time data)) \<and>
     form ''actual_description'' = Some (Text (actual_description data)) \<and>
     actual_description data \<noteq> [] \<and>
     form ''reflection'' = Some (Text (reflection data)) \<and>
     reflection data \<noteq> []"
  by (cases data)
     (auto simp: reportSchema_def z_string_def z_string_min1_def
           split: sum.splits option.splits entry.splits if_splits)

theorem reportSchema_accepts_witness:
  "reportSchema report_form = Inr report_form_data \<and> break_time report_form_data = ''-15''"
  using reportSchema_accepts [of report_form report_form_data]
  by (simp add: report_form_def report_form_data_def)

text \<open>
  C4 as stated fails: the payload of \<open>report_form\<close>, whose break time is the text \<open>-15\<close>,
  passes the validation.
\<close>

theorem break_time_counterexample:
  "reportSchema report_form = Inr report_form_data \<and>
   \<not> non_negative_integer (break_time report_form_data)"
  by (simp add: reportSchema_def report_form_def report_form_data_def z_string_def
        z_string_min1_def non_negative_integer_def is_digit_def)

section \<open>The Reports and Members loaders\<close>

lemma no_user_no_admin: "auth_user e = None \<Longrightarrow> \<not> admin_caller e d"
  by (simp add: admin_caller_def select_is_admin_def)

lemma november_query:
  "reports_loader admin_env (Some ''2024'') (Some ''11'') example_db =
     Some (Inr \<lparr>data_reports =
                  Some [\<lparr>row_report = november_report,
                         row_schedules = Some (november_schedule, Some ''Ren'')\<rparr>],
                data_year = ''2024'', data_month = ''11''\<rparr>,
           [GetUser, SelectIsAdmin (Some ''u1''), SelectReports ''2024-11-01'' ''2024-12-01''])"
  by (simp add: reports_loader_def admin_caller_def select_is_admin_def example_defs
        or_default_def lower_bound_def padStart_def upper_bound_def toString_def
        string_of_nat.simps number_defs select_reports_def dated_reports_def
        List.map_filter_simps embed_def ts_defs)

text \<open>
  C5. The gate is as the claim says: a caller who is not signed in, or whose profile
  does not carry the admin flag, gets the access-denied error from the Reports loader and
  from the Members loader, and no data; an admin gets all profiles from the Members
  loader, ordered by their creation time. The report list of an admin is not what the
  claim says when the month is December, by the slip of C1. The admin of the example opens
  the page without query parameters while the clock shows December 2024 (\<open>getMonth()\<close> is
  11): the loader asks for the reports from 2024-12-01 up to 2024-01-01 and returns none,
  although the store holds a report that starts on 2024-12-16. For November 2024 the same
  admin gets the report of November.
\<close>

theorem admin_gate_and_december:
  "(auth_user e = None \<longrightarrow> \<not> admin_caller e d) \<and>
   (\<not> admin_caller e d \<longrightarrow>
      reports_loader e year_param month_param d =
        Some (Inl Access_denied, [GetUser, SelectIsAdmin (auth_user e)]) \<and>
      members_loader e d = (Inl Access_denied, [GetUser, SelectIsAdmin (auth_user e)])) \<and>
   (admin_caller e d \<longrightarrow>
      (\<exists>members.
         members_loader e d =
           (Inr members, [GetUser, SelectIsAdmin (auth_user e), SelectProfiles]) \<and>
         mset members = mset (db_profiles d) \<and> sorted (map created_at members))) \<and>
   admin_caller admin_env example_db \<and>
   clock_year admin_env = 2024 \<and> clock_month admin_env = 11 \<and>
   reports_loader admin_env None None example_db =
     Some (Inr \<lparr>data_reports = Some [], data_year = ''2024'', data_month = ''12''\<rparr>,
           [GetUser, SelectIsAdmin (Some ''u1''), SelectReports ''2024-12-01'' ''2024-01-01'']) \<and>
   db_reports example_db = [november_report, december_report] \<and>
   actual_start_time (snd december_report) = ''2024-12-16T09:00'' \<and>
   reports_loader admin_env (Some ''2024'') (Some ''11'') example_db =
     Some (Inr \<lparr>data_reports =
                  Some [\<lparr>row_report = november_report,
                         row_schedules = Some (november_schedule, Some ''Ren'')\<rparr>],
                data_year = ''2024'', data_month = ''11''\<rparr>,
           [GetUser, SelectIsAdmin (Some ''u1''), SelectReports ''2024-11-01'' ''2024-12-01''])"
proof -
  have december: "reports_loader admin_env None None example_db =
     Some (Inr \<lparr>data_reports = Some [], data_year = ''2024'', data_month = ''12''\<rparr>,
           [GetUser, SelectIsAdmin (Some ''u1''), SelectReports ''2024-12-01'' ''2024-01-01''])"
    by (simp add: reports_loader_def admin_caller_def select_is_admin_def example_defs
        or_default_def lower_bound_def padStart_def upper_bound_def toString_def
        string_of_nat.simps number_defs select_reports_def dated_reports_def
        List.map_filter_simps ts_defs)
  have gate: "\<not> admin_caller e d \<longrightarrow>
      reports_loader e year_param month_param d =
        Some (Inl Access_denied, [GetUser, SelectIsAdmin (auth_user e)]) \<and>
      members_loader e d = (Inl Access_denied, [GetUser, SelectIsAdmin (auth_user e)])"
    by (simp add: reports_loader_def members_loader_def)
  have members: "admin_caller e d \<longrightarrow>
      (\<exists>members.
         members_loader e d =
           (Inr members, [GetUser, SelectIsAdmin (auth_user e), SelectProfiles]) \<and>
         mset members = mset (db_profiles d) \<and> sorted (map created_at members))"
    by (simp add: members_loader_def)
  from december gate members admin_env_admin november_query show ?thesis
    by (simp add: no_user_no_admin) (simp add: example_defs)
qed

theorem admin_gate_and_december_witness:
  "reports_loader anonymous_env (Some ''2024'') (Some ''11'') example_db =
     Some (Inl Access_denied, [GetUser, SelectIsAdmin None]) \<and>
   members_loader anonymous_env example_db = (Inl Access_denied, [GetUser, SelectIsAdmin None]) \<and>
   reports_loader member_env (Some ''2024'') (Some ''11'') example_db =
     Some (Inl Access_denied, [GetUser, SelectIsAdmin (Some ''u2'')]) \<and>
   members_loader member_env example_db =
     (Inl Access_denied, [GetUser, SelectIsAdmin (Some ''u2'')]) \<and>
   (\<exists>members.
      members_loader admin_env example_db =
        (Inr members, [GetUser, SelectIsAdmin (Some ''u1''), SelectProfiles]) \<and>
      mset members = mset [admin_profile, member_profile])"
proof -
  have u1: "auth_user admin_env = Some ''u1''" and u2: "auth_user member_env = Some ''u2''"
    and u0: "auth_user anonymous_env = None"
    by (simp_all add: example_defs)
  have db: "db_profiles example_db = [admin_profile, member_profile]"
    by (simp add: example_db_def)
  note a = admin_gate_and_december [of anonymous_env example_db "Some ''2024''" "Some ''11''"]
  note b = admin_gate_and_december [of member_env example_db "Some ''2024''" "Some ''11''"]
  note c = admin_gate_and_december [of admin_env example_db "Some ''2024''" "Some ''11''"]
  from a anonymous_env_not_admin u0
  have 1: "reports_loader anonymous_env (Some ''2024'') (Some ''11'') example_db =
     Some (Inl Access_denied, [GetUser, SelectIsAdmin None]) \<and>
     members_loader anonymous_env example_db = (Inl Access_denied, [GetUser, SelectIsAdmin None])"
    by simp
  from b member_env_not_admin u2
  have 2: "reports_loader member_env (Some ''2024'') (Some ''11'') example_db =
     Some (Inl Access_denied, [GetUser, SelectIsAdmin (Some ''u2'')]) \<and>
     members_loader member_env example_db =
     (Inl Access_denied, [GetUser, SelectIsAdmin (Some ''u2'')])"
    by simp
  from c admin_env_admin u1 db obtain members where
    3: "members_loader admin_env example_db =
        (Inr members, [GetUser, SelectIsAdmin (Some ''u1''), SelectProfiles]) \<and>
      mset members = mset [admin_profile, member_profile]"
    by auto
  from 1 2 3 show ?thesis by blast
qed

section \<open>The month filter in December\<close>

text \<open>
  C1 asks that a query for month 12 of a year Y selects the reports that start from
  Y-12-01 up to, and not including, the first of January of the year Y + 1. In the
  loader the upper literal for month 12 is the first of January of the same year Y: the
  month rolls over to 01 and the year stays. For 2024 the loader asks for the reports
  from 2024-12-01 up to 2024-01-01 and gets none, although the report of the example
  that starts on 2024-12-16 lies between 2024-12-01 and 2025-01-01.
\<close>

theorem december_query_selects_nothing:
  "lower_bound year ''12'' = year @ ''-12-01'' \<and>
   upper_bound year ''12'' = Some (year @ ''-01-01'') \<and>
   reports_loader admin_env (Some ''2024'') (Some ''12'') example_db =
     Some (Inr \<lparr>data_reports = Some [], data_year = ''2024'', data_month = ''12''\<rparr>,
           [GetUser, SelectIsAdmin (Some ''u1''), SelectReports ''2024-12-01'' ''2024-01-01'']) \<and>
   timestamp_ms ''2024-12-01'' = Some 1733011200000 \<and>
   timestamp_ms ''2025-01-01'' = Some 1735689600000 \<and>
   timestamp_ms (actual_start_time (snd december_report)) = Some 1734339600000 \<and>
   in_range 1733011200000 1735689600000 december_report"
  by (simp add: reports_loader_def admin_caller_def select_is_admin_def example_defs
        or_default_def lower_bound_def padStart_def upper_bound_def number_defs
        select_reports_def dated_reports_def List.map_filter_simps in_range_def ts_defs)


section \<open>The Reports page\<close>

lemmas page_defs = page_row_def first_report_def second_report_def reversed_report_def
  first_clock_report_def second_clock_report_def orphaned_report_def december_schedule_def
  november_schedule_def november_report_def





lemma extend_group_Nil [simp]: "extend_group g [] = g"
  by (simp add: extend_group_def)














lemma render_row_Returned:
  "render_row r = Returned p \<Longrightarrow> p = hours_minutes (row_workMinutes r)"
  by (simp add: render_row_def Let_def split: if_splits)


lemma in_order_rows:
  "in_order (map render_row rs) = Returned rows \<Longrightarrow>
   rows = map (\<lambda>r. hours_minutes (row_workMinutes r)) rs"
proof (induction rs arbitrary: rows)
  case Nil
  then show ?case by simp
next
  case (Cons r rs)
  then show ?case
    by (auto simp: render_row_Returned split: outcome.splits)
qed

lemma render_group_Returned:
  assumes "render_group entry = Returned shown"
  shows "fst shown = fst entry \<and>
     shown_userName (snd shown) = userName (snd entry) \<and>
     shown_total (snd shown) = hours_minutes (totalWorkMinutes (snd entry)) \<and>
     shown_rows (snd shown) = map (\<lambda>r. hours_minutes (row_workMinutes r)) (reports (snd entry))"
  using assms
  by (auto simp: render_group_def dest: in_order_rows split: outcome.splits)



lemma in_order_keys:
  "in_order (map render_group acc) = Returned sections \<Longrightarrow> map fst sections = map fst acc"
proof (induction acc arbitrary: sections)
  case Nil
  then show ?case by simp
next
  case (Cons entry acc)
  from Cons.prems obtain shown rest where shown: "render_group entry = Returned shown"
    and rest: "in_order (map render_group acc) = Returned rest"
    and sections: "sections = shown # rest"
    by (auto split: outcome.splits)
  from render_group_Returned [OF shown] Cons.IH [OF rest] sections show ?case by simp
qed











lemma clock_report_minutes:
  "workMinutes first_clock_report = NaN \<and> workMinutes second_clock_report = NaN"
  by (simp add: workMinutes_def page_defs parseISO_def differenceInMinutes_def ts_defs number_defs)











text \<open>
  What the page does with rows it cannot read: a report without its joined schedule, a
  first report of a user without the joined profile (as the loader returns it once the
  profile is deleted) and a user id that is an inherited property name make the reducer
  throw, and the reports with clock times alone make the rows throw when they are
  formatted.
\<close>

lemma reduce_step_throws:
  "row_schedules report = None \<Longrightarrow> reduce_step acc report = Inl TypeError"
  "row_schedules report = Some (s, prof) \<Longrightarrow> map_of acc (property_key (user_id (snd s))) = None \<Longrightarrow>
   property_key (user_id (snd s)) \<in> set inherited_keys \<or> prof = None \<Longrightarrow>
   reduce_step acc report = Inl TypeError"
  by (auto simp: reduce_step_def Let_def)

lemma inherited_key_throws: "Reports (Some [constructor_report]) = Thrown TypeError"
  by (simp add: Reports_def reportsByUser_def reduce_step_def constructor_report_def
        property_key_def inherited_keys_def Let_def)

lemma orphaned_report_throws: "Reports (Some [orphaned_report]) = Thrown TypeError"
  by (simp add: Reports_def reportsByUser_def reduce_step_def orphaned_report_def
        november_schedule_def property_key_def inherited_keys_def Let_def)

lemma clock_reports_throw:
  "Reports (Some [first_clock_report, second_clock_report]) = Thrown RangeError"
  using clock_report_minutes
  by (simp add: Reports_def reportsByUser_def reduce_step_def first_clock_report_def
        second_clock_report_def page_row_def december_schedule_def property_key_def
        inherited_keys_def push_report_def Let_def render_group_def render_row_def
        parseISO_def ts_defs js_plus_def entries_def array_index_def)

end
